theory Spec2Isabelle
  imports Main "HOL-Library.AList"
begin

section \<open>The APIC-EM client core (apicem.go)\<close>

text \<open>
  The file \<^verbatim>\<open>apicem.go\<close> holds the shared plumbing of the client: the query
  encoder \<^verbatim>\<open>addOptions\<close>, the constructors \<^verbatim>\<open>NewClient\<close> and \<^verbatim>\<open>New\<close> with
  their options, the request builder \<^verbatim>\<open>NewRequest\<close>, the dispatcher \<^verbatim>\<open>Do\<close>, the
  error classifier \<^verbatim>\<open>CheckResponse\<close> and the rendering \<^verbatim>\<open>Error\<close> of an API error.

  Go strings and byte slices are sequences of bytes, so both are \<^typ>\<open>string\<close> here.
  A Go \<^verbatim>\<open>int\<close> that is only compared and printed is an \<^typ>\<open>int\<close>.
  The packages the file imports (\<^verbatim>\<open>net/url\<close>, \<^verbatim>\<open>net/http\<close>, \<^verbatim>\<open>encoding/json\<close>,
  \<^verbatim>\<open>io\<close>, \<^verbatim>\<open>go-querystring\<close>) are not part of the repository: every call into
  them is a field of the record \<open>lib\<close> below, and each function of the file that
  calls a package takes that record as its first argument. Whatever a theorem needs from
  a package is a hypothesis of the theorem.
\<close>

subsection \<open>Constants\<close>

definition libraryVersion :: string where
  "libraryVersion = ''0.1.0''"

definition userAgent :: string where
  "userAgent = ''apicem/'' @ libraryVersion"


definition defaultBaseURL :: string where
  "defaultBaseURL = ''https://sandboxapic.cisco.com/api''"

definition authorizationToken :: string where
  "authorizationToken = []"

subsection \<open>Data\<close>

type_synonym bytes = string

text \<open>The message of an error value produced by one of the imported packages.\<close>

type_synonym ext_error = string

text \<open>\<^verbatim>\<open>url.Values\<close> and \<^verbatim>\<open>http.Header\<close> are both \<^verbatim>\<open>map[string][]string\<close>.\<close>

type_synonym Values = "(string \<times> string list) list"

text \<open>The fields of \<^verbatim>\<open>url.URL\<close>; the file itself reads and writes \<open>RawQuery\<close> only.\<close>

record URL =
  Scheme :: string
  Host :: string
  Path :: string
  RawQuery :: string
  Fragment :: string


text \<open>
  \<^verbatim>\<open>http.Request\<close>; the field \<open>URL\<close> is a pointer, \<open>None\<close> when nil.
\<close>

record Request =
  Method :: string
  URL :: "URL option"
  Header :: Values
  Payload :: bytes

text \<open>
  A response body is an \<^verbatim>\<open>io.ReadCloser\<close>: the bytes not read yet, the error the
  reader reports in place of the end of the stream (if any), and whether it was closed.
\<close>

record body =
  unread :: bytes
  read_error :: "ext_error option"
  closed :: bool

text \<open>
  \<^verbatim>\<open>http.Response\<close>. \<open>Request\<close> is a pointer and \<open>Body\<close> an interface value; both
  are \<open>None\<close> when nil. The transport hands out responses in which neither is nil, but
  both can be set to nil later, by the completion callback or by the JSON decoder.
\<close>

record http_Response =
  StatusCode :: int
  Request :: "Request option"
  Body :: "body option"

text \<open>
  A \<^verbatim>\<open>*http.Response\<close> as \<^verbatim>\<open>CheckResponse\<close> and \<^verbatim>\<open>Do\<close> hold it. One response
  object is shared: the response of the transport, to which the local variables
  \<^verbatim>\<open>resp\<close> and \<^verbatim>\<open>r\<close>, the wrapper and the field \<^verbatim>\<open>HTTPResponse\<close> of the error
  all point. \<open>LiveResponse\<close> is the pointer to this object; its current state is passed
  along explicitly and returned by every function that can change it. A pointer can also
  be nil, or point to another response object that nothing else refers to (the JSON
  decoder allocates one when it decodes an object into a nil pointer).
\<close>

datatype resp_ref = NilResponse | LiveResponse | OtherResponse http_Response

definition deref :: "http_Response \<Rightarrow> resp_ref \<Rightarrow> http_Response option" where
  "deref live p =
     (case p of NilResponse \<Rightarrow> None | LiveResponse \<Rightarrow> Some live | OtherResponse x \<Rightarrow> Some x)"

text \<open>\<^verbatim>\<open>Response\<close> embeds the \<^verbatim>\<open>*http.Response\<close> and adds the monitoring URI.\<close>

record Response =
  embedded :: resp_ref
  Monitor :: string

record error_item =
  Description :: string

text \<open>
  \<^verbatim>\<open>ErrorResponse\<close>. All four fields are exported and carry no JSON tag, so the JSON
  decoder writes all four, \<^verbatim>\<open>HTTPResponse\<close> included.
\<close>

record ErrorResponse =
  HTTPResponse :: resp_ref
  Message :: string
  Errors :: "error_item list"
  TrackingID :: string

text \<open>
  The outcome of a call that can panic: it panics or it returns. \<open>Panics\<close> carries what
  the call wrote to standard output before.
\<close>

datatype 'a exec = Panics "string list" | Returns 'a

text \<open>
  A non-nil Go \<^verbatim>\<open>error\<close> in this file is either an error value handed over by a
  package or a \<^verbatim>\<open>*ErrorResponse\<close>. The nil error is \<open>None\<close> of \<open>error option\<close>.
\<close>

datatype error = External ext_error | API ErrorResponse

text \<open>
  An \<^verbatim>\<open>interface{}\<close> argument that the file inspects by reflection: the nil
  interface, a nil pointer of some pointer type, or any other value.
\<close>

datatype 'v iface = NilInterface | NilPtr | NonNil 'v

text \<open>
  The destination \<^verbatim>\<open>v\<close> of \<^verbatim>\<open>Do\<close>: nil, a value that implements
  \<^verbatim>\<open>io.Writer\<close>, or any other value (a target of JSON decoding).
\<close>

datatype 'v dest = NoDest | Writer 'v | Target 'v

type_synonym transport = "Request \<Rightarrow> ext_error + http_Response"

text \<open>
  \<^verbatim>\<open>RequestCompletionCallback\<close> receives pointers to the request and to the
  response; what it does to the response is seen by the rest of \<^verbatim>\<open>Do\<close>.
\<close>

type_synonym RequestCompletionCallback = "Request \<Rightarrow> http_Response \<Rightarrow> http_Response"

text \<open>
  \<^verbatim>\<open>Client\<close>. The service fields (\<^verbatim>\<open>AAA\<close>, \<^verbatim>\<open>Alarm\<close>, ...) all point to the one
  field \<^verbatim>\<open>common\<close>, whose only content is the pointer back to the client; they hold
  no data of their own and are left out. \<open>BaseURL\<close> is a pointer, \<open>None\<close> when nil.
\<close>

record Client =
  client :: transport
  BaseURL :: "URL option"
  UserAgent :: string
  Authorization :: string
  onRequestCompleted :: "RequestCompletionCallback option"

text \<open>
  \<^verbatim>\<open>ClientOpt\<close> is \<^verbatim>\<open>func(*Client) error\<close>: it may change the client it is given
  and returns an error or nil.
\<close>

type_synonym ClientOpt = "Client \<Rightarrow> Client \<times> error option"

subsection \<open>The imported packages\<close>

text \<open>
  One field per package function the file calls. \<open>'v\<close> is the type of the Go values
  that pass through \<^verbatim>\<open>interface{}\<close> parameters.
  \<^item> \<open>url_Parse\<close>, \<open>url_String\<close>, \<open>url_Query\<close>, \<open>url_ResolveReference\<close>,
    \<open>values_Encode\<close>: package \<^verbatim>\<open>net/url\<close>. \<open>url_ResolveReference\<close> receives the
    receiver as a pointer and answers \<open>None\<close> where the package panics.
  \<^item> \<open>query_Values\<close>: \<^verbatim>\<open>query.Values\<close> of go-querystring; the entries of the
    returned map are listed in the order in which \<^verbatim>\<open>range\<close> visits them.
  \<^item> \<open>unicode_ToUpper\<close>: what \<^verbatim>\<open>strings.ToUpper\<close> does to a string that is not
    pure ASCII.
  \<^item> \<open>json_Encode\<close>, \<open>json_Unmarshal\<close>, \<open>json_Decode\<close>: package
    \<^verbatim>\<open>encoding/json\<close>. Unmarshalling into a \<^verbatim>\<open>*ErrorResponse\<close> changes the
    fields of the error value and, through its field \<^verbatim>\<open>HTTPResponse\<close>, the shared
    response; it takes and returns the state of both and returns an error or nil.
    Decoding reads from the body and changes the target.
  \<^item> \<open>io_Copy\<close>: \<^verbatim>\<open>io.Copy\<close> from a body into a writer.
  \<^item> \<open>http_NewRequest\<close>, \<open>http_DefaultClient\<close>: package \<^verbatim>\<open>net/http\<close>.
\<close>

record 'v lib =
  url_Parse :: "string \<Rightarrow> ext_error + URL"
  url_String :: "URL \<Rightarrow> string"
  url_Query :: "URL \<Rightarrow> Values"
  url_ResolveReference :: "URL option \<Rightarrow> URL \<Rightarrow> URL option"
  values_Encode :: "Values \<Rightarrow> string"
  query_Values :: "'v iface \<Rightarrow> ext_error + Values"
  unicode_ToUpper :: "string \<Rightarrow> string"
  json_Encode :: "'v \<Rightarrow> ext_error + bytes"
  json_Unmarshal ::
    "bytes \<Rightarrow> http_Response \<Rightarrow> ErrorResponse \<Rightarrow> http_Response \<times> ErrorResponse \<times> ext_error option"
  json_Decode :: "body \<Rightarrow> 'v \<Rightarrow> 'v \<times> body \<times> ext_error option"
  io_Copy :: "'v \<Rightarrow> body \<Rightarrow> 'v \<times> body \<times> ext_error option"
  http_NewRequest :: "string \<Rightarrow> string \<Rightarrow> bytes \<Rightarrow> ext_error + Request"
  http_DefaultClient :: transport

subsection \<open>Formatting\<close>

text \<open>
  \<^verbatim>\<open>fmt.Sprintf\<close> for the verbs the file uses, \<^verbatim>\<open>%v\<close>, \<^verbatim>\<open>%s\<close> and \<^verbatim>\<open>%d\<close>
  without flags, on strings and integers. A \<^verbatim>\<open>*url.URL\<close> operand implements
  \<^verbatim>\<open>Stringer\<close> and is passed as the string its \<^verbatim>\<open>String\<close> method returns.
  A verb without operand, an operand of the wrong type and surplus operands are
  rendered with the markers of package \<^verbatim>\<open>fmt\<close>.
\<close>

datatype arg = ArgString string | ArgInt int

fun digits :: "nat \<Rightarrow> string" where
  "digits n = (if n < 10 then [''0123456789'' ! n]
               else digits (n div 10) @ [''0123456789'' ! (n mod 10)])"

declare digits.simps [simp del]

definition itoa :: "int \<Rightarrow> string" where
  "itoa i = (if i < 0 then CHR ''-'' # digits (nat (- i)) else digits (nat i))"

fun fmt_value :: "arg \<Rightarrow> string" where
  "fmt_value (ArgString s) = s"
| "fmt_value (ArgInt i) = itoa i"

fun fmt_type :: "arg \<Rightarrow> string" where
  "fmt_type (ArgString s) = ''string''"
| "fmt_type (ArgInt i) = ''int''"

definition bad_verb :: "char \<Rightarrow> arg \<Rightarrow> string" where
  "bad_verb c a = ''%!'' @ [c] @ ''('' @ fmt_type a @ ''='' @ fmt_value a @ '')''"

fun fmt_verb :: "char \<Rightarrow> arg \<Rightarrow> string" where
  "fmt_verb c (ArgString s) =
     (if c = CHR ''v'' \<or> c = CHR ''s'' then s else bad_verb c (ArgString s))"
| "fmt_verb c (ArgInt i) =
     (if c = CHR ''v'' \<or> c = CHR ''d'' then itoa i else bad_verb c (ArgInt i))"

fun fmt_extra :: "arg list \<Rightarrow> string" where
  "fmt_extra [] = ''''"
| "fmt_extra [a] = fmt_type a @ ''='' @ fmt_value a"
| "fmt_extra (a # as) = fmt_type a @ ''='' @ fmt_value a @ '', '' @ fmt_extra as"

fun Sprintf :: "string \<Rightarrow> arg list \<Rightarrow> string" where
  "Sprintf [] [] = []"
| "Sprintf [] (a # as) = ''%!(EXTRA '' @ fmt_extra (a # as) @ '')''"
| "Sprintf [c] as =
     (if c = CHR ''%'' then ''%!(NOVERB)'' @ Sprintf [] as else c # Sprintf [] as)"
| "Sprintf (c # d # fs) as =
     (if c \<noteq> CHR ''%'' then c # Sprintf (d # fs) as
      else if d = CHR ''%'' then CHR ''%'' # Sprintf fs as
      else (case as of
              [] \<Rightarrow> ''%!'' @ [d] @ ''(MISSING)'' @ Sprintf fs []
            | a # as' \<Rightarrow> fmt_verb d a @ Sprintf fs as'))"

text \<open>\<^verbatim>\<open>fmt.Println\<close>: the operands separated by spaces, then a newline.\<close>

fun Println :: "string list \<Rightarrow> string" where
  "Println [] = [CHR 0x0A]"
| "Println [a] = a @ [CHR 0x0A]"
| "Println (a # as) = a @ '' '' @ Println as"

subsection \<open>\<^verbatim>\<open>strings.ToUpper\<close>\<close>





subsection \<open>The query encoder\<close>

text \<open>
  The loop \<^verbatim>\<open>for k, v := range newValues { origValues[k] = v }\<close>, over the entries
  of \<^verbatim>\<open>newValues\<close> in the order of the iteration.
\<close>

fun range_assign :: "Values \<Rightarrow> Values \<Rightarrow> Values" where
  "range_assign [] origValues = origValues"
| "range_assign ((k, v) # newValues) origValues =
     range_assign newValues (AList.update k v origValues)"

text \<open>
  \<^verbatim>\<open>addOptions\<close> returns a string and an error. The first test is
  \<^verbatim>\<open>v.Kind() == reflect.Ptr && v.IsNil()\<close>, which holds of a nil pointer and of
  nothing else (the nil interface has kind \<^verbatim>\<open>Invalid\<close>).
\<close>

definition addOptions :: "'v lib \<Rightarrow> string \<Rightarrow> 'v iface \<Rightarrow> string \<times> error option" where
  "addOptions L s opt =
     (case opt of
        NilPtr \<Rightarrow> (s, None)
      | _ \<Rightarrow>
        (case url_Parse L s of
           Inl e \<Rightarrow> (s, Some (External e))
         | Inr origURL \<Rightarrow>
           (let origValues = url_Query L origURL in
            case query_Values L opt of
              Inl e \<Rightarrow> (s, Some (External e))
            | Inr newValues \<Rightarrow>
              (let origValues' = range_assign newValues origValues;
                   origURL' = origURL\<lparr>RawQuery := values_Encode L origValues'\<rparr>
               in (url_String L origURL', None)))))"

subsection \<open>Construction and options\<close>

text \<open>
  \<^verbatim>\<open>NewClient\<close>: a nil \<^verbatim>\<open>httpClient\<close> is replaced by \<^verbatim>\<open>http.DefaultClient\<close>; the
  error of parsing the default base URL is dropped, and the URL is nil if there was one.
\<close>

definition NewClient :: "'v lib \<Rightarrow> transport option \<Rightarrow> Client" where
  "NewClient L httpClient =
     \<lparr>client = (case httpClient of None \<Rightarrow> http_DefaultClient L | Some h \<Rightarrow> h),
      BaseURL = (case url_Parse L defaultBaseURL of Inl e \<Rightarrow> None | Inr u \<Rightarrow> Some u),
      UserAgent = userAgent,
      Authorization = authorizationToken,
      onRequestCompleted = None\<rparr>"

text \<open>The loop of \<^verbatim>\<open>New\<close> over the options, on the client built so far.\<close>

fun apply_opts :: "Client \<Rightarrow> ClientOpt list \<Rightarrow> error + Client" where
  "apply_opts c [] = Inr c"
| "apply_opts c (opt # opts) =
     (case opt c of
        (c', Some e) \<Rightarrow> Inl e
      | (c', None) \<Rightarrow> apply_opts c' opts)"

definition New :: "'v lib \<Rightarrow> transport option \<Rightarrow> ClientOpt list \<Rightarrow> error + Client" where
  "New L httpClient opts = apply_opts (NewClient L httpClient) opts"

definition SetBaseURL :: "'v lib \<Rightarrow> string \<Rightarrow> ClientOpt" where
  "SetBaseURL L bu c =
     (case url_Parse L bu of
        Inl e \<Rightarrow> (c, Some (External e))
      | Inr u \<Rightarrow> (c\<lparr>BaseURL := Some u\<rparr>, None))"

definition SetUserAgent :: "string \<Rightarrow> ClientOpt" where
  "SetUserAgent ua c =
     (c\<lparr>UserAgent := Sprintf ''%s+%s'' [ArgString ua, ArgString (UserAgent c)]\<rparr>, None)"

definition OnRequestCompleted :: "Client \<Rightarrow> RequestCompletionCallback option \<Rightarrow> Client" where
  "OnRequestCompleted c rc = c\<lparr>onRequestCompleted := rc\<rparr>"

subsection \<open>The request builder\<close>


definition Header_Values :: "Values \<Rightarrow> string \<Rightarrow> string list" where
  "Header_Values h key = (case map_of h key of None \<Rightarrow> [] | Some vs \<Rightarrow> vs)"




subsection \<open>The error classifier\<close>

text \<open>
  \<^verbatim>\<open>Error\<close> reads the method and the URL through \<^verbatim>\<open>r.HTTPResponse.Request\<close>: it
  panics when \<^verbatim>\<open>HTTPResponse\<close> or \<^verbatim>\<open>Request\<close> is nil. A nil \<^verbatim>\<open>*url.URL\<close> is
  printed by \<^verbatim>\<open>%v\<close> as \<^verbatim>\<open><nil>\<close>. The first argument after the packages is the
  current state of the shared response.
\<close>

definition Error :: "'v lib \<Rightarrow> http_Response \<Rightarrow> ErrorResponse \<Rightarrow> string exec" where
  "Error L live r =
     (case deref live (HTTPResponse r) of
        None \<Rightarrow> Panics []
      | Some resp \<Rightarrow>
        (case Request resp of
           None \<Rightarrow> Panics []
         | Some rq \<Rightarrow>
             Returns (Sprintf ''%v %v: %d %v''
               [ArgString (Method rq),
                ArgString (case URL rq of None \<Rightarrow> ''<nil>'' | Some u \<Rightarrow> url_String L u),
                ArgInt (StatusCode resp),
                ArgString (Message r)])))"

text \<open>
  An error value as \<^verbatim>\<open>fmt.Println\<close> prints it: the text of its \<^verbatim>\<open>Error\<close> method,
  or the marker that package \<^verbatim>\<open>fmt\<close> prints when the method panics.
\<close>

definition printed :: "string exec \<Rightarrow> string" where
  "printed x =
     (case x of
        Returns s \<Rightarrow> s
      | Panics out \<Rightarrow> ''%!v(PANIC=Error method: runtime error: invalid memory address or nil pointer dereference)'')"

text \<open>
  \<^verbatim>\<open>ioutil.ReadAll\<close> on a body: the bytes read and the error, and the body after
  the read. The slice it returns is never nil.
\<close>

definition ioutil_ReadAll :: "body \<Rightarrow> bytes \<times> ext_error option \<times> body" where
  "ioutil_ReadAll b =
     (if closed b then ([], Some ''http: read on closed response body'', b)
      else (unread b, read_error b, b\<lparr>unread := []\<rparr>))"

text \<open>
  \<^verbatim>\<open>CheckResponse\<close> takes the shared response and returns the error, the state in
  which it leaves the shared response, and the line written to standard output.
  \<^verbatim>\<open>errorResponse.HTTPResponse\<close> is the pointer \<^verbatim>\<open>r\<close> itself. Reading a nil body
  panics. The error of the first call of \<^verbatim>\<open>json.Unmarshal\<close> is dropped, the error of
  the second one is returned; both calls decode into the same \<^verbatim>\<open>errorResponse\<close>.
\<close>

definition CheckResponse ::
  "'v lib \<Rightarrow> http_Response \<Rightarrow> (error option \<times> http_Response \<times> string list) exec" where
  "CheckResponse L r =
     (if 200 \<le> StatusCode r \<and> StatusCode r \<le> 299 then Returns (None, r, [])
      else
        (let errorResponse =
               \<lparr>HTTPResponse = LiveResponse, Message = [], Errors = [], TrackingID = []\<rparr>;
             out = [Println [''ERROR'', printed (Error L r errorResponse)]]
         in case Body r of
              None \<Rightarrow> Panics out
            | Some bd \<Rightarrow>
              (let (data, err, b) = ioutil_ReadAll bd;
                   r1 = r\<lparr>Body := Some b\<rparr>;
                   (r2, errorResponse1) =
                     (if err = None
                      then (case json_Unmarshal L data r1 errorResponse of
                              (r', e', x) \<Rightarrow> (r', e'))
                      else (r1, errorResponse))
               in if err = None \<and> length data > 0
                  then (case json_Unmarshal L data r2 errorResponse1 of
                          (r3, errorResponse2, Some e) \<Rightarrow> Returns (Some (External e), r3, out)
                        | (r3, errorResponse2, None) \<Rightarrow>
                            Returns (Some (API errorResponse2), r3, out))
                  else Returns (Some (API errorResponse1), r2, out))))"

subsection \<open>The dispatcher\<close>

definition newResponse :: "resp_ref \<Rightarrow> Response" where
  "newResponse r = \<lparr>embedded = r, Monitor = []\<rparr>"

text \<open>
  The two deferred functions, in the order in which they run: drain up to 512 bytes
  (nothing, if the body is closed already) and close, then close again. Both call methods
  of \<^verbatim>\<open>resp.Body\<close> and panic when it is nil: the result is \<open>None\<close> then. The error of
  the last \<^verbatim>\<open>Close\<close> is stored in the local variable \<^verbatim>\<open>err\<close>; the results of
  \<^verbatim>\<open>Do\<close> are not named, so this does not reach the caller.
\<close>

definition deferred :: "http_Response \<Rightarrow> http_Response option" where
  "deferred resp =
     (case Body resp of
        None \<Rightarrow> None
      | Some b \<Rightarrow>
          Some (resp\<lparr>Body := Some (b
            \<lparr>unread := (if closed b then unread b else drop 512 (unread b)),
             closed := True\<rparr>)\<rparr>))"

text \<open>
  What a call of \<^verbatim>\<open>Do\<close> that returns leaves behind: the two results, the destination
  after the call, what was written to standard output, and the shared response as the
  deferred functions leave it (\<open>None\<close> when the transport failed and there is none). The
  wrapper and, unless the decoder changed it, the error point to this response.
\<close>

record 'v outcome =
  response :: "Response option"
  err :: "error option"
  dest :: "'v dest"
  stdout :: "string list"
  live :: "http_Response option"

text \<open>
  \<^verbatim>\<open>if c.onRequestCompleted != nil { c.onRequestCompleted(req, resp) }\<close>: the
  response as the callback leaves it.
\<close>

definition notify :: "Client \<Rightarrow> Request \<Rightarrow> http_Response \<Rightarrow> http_Response" where
  "notify c req resp =
     (case onRequestCompleted c of None \<Rightarrow> resp | Some rc \<Rightarrow> rc req resp)"

text \<open>
  A \<^verbatim>\<open>return\<close> of \<^verbatim>\<open>Do\<close> after the transport call: the deferred functions run on
  the shared response, and the call returns the values unless they panic.
\<close>

definition return_deferred ::
  "http_Response \<Rightarrow> Response option \<Rightarrow> error option \<Rightarrow> 'v dest \<Rightarrow> string list \<Rightarrow>
     'v outcome exec" where
  "return_deferred resp res e v out =
     (case deferred resp of
        None \<Rightarrow> Panics out
      | Some resp' \<Rightarrow>
          Returns \<lparr>response = res, err = e, dest = v, stdout = out, live = Some resp'\<rparr>)"

text \<open>
  \<^verbatim>\<open>Do\<close>. \<^verbatim>\<open>io.Copy\<close> and the JSON decoder read from \<^verbatim>\<open>resp.Body\<close> and panic
  when it is nil.
\<close>

definition Do :: "'v lib \<Rightarrow> Client \<Rightarrow> Request \<Rightarrow> 'v dest \<Rightarrow> 'v outcome exec" where
  "Do L c req v =
     (case client c req of
        Inl e \<Rightarrow>
          Returns \<lparr>response = None, err = Some (External e), dest = v, stdout = [],
                   live = None\<rparr>
      | Inr resp0 \<Rightarrow>
        (let resp = notify c req resp0;
             wrapper = newResponse LiveResponse
         in case CheckResponse L resp of
              Panics out \<Rightarrow> Panics out
            | Returns (cerr, resp1, out) \<Rightarrow>
              (case cerr of
                 Some e \<Rightarrow> return_deferred resp1 (Some wrapper) (Some e) v out
               | None \<Rightarrow>
                 (case v of
                    NoDest \<Rightarrow> return_deferred resp1 (Some wrapper) None v out
                  | Writer w \<Rightarrow>
                      (case Body resp1 of
                         None \<Rightarrow> Panics out
                       | Some bd \<Rightarrow>
                         (case io_Copy L w bd of
                            (w', b, Some e) \<Rightarrow>
                              return_deferred (resp1\<lparr>Body := Some b\<rparr>) None
                                (Some (External e)) (Writer w') out
                          | (w', b, None) \<Rightarrow>
                              return_deferred (resp1\<lparr>Body := Some b\<rparr>) (Some wrapper)
                                None (Writer w') out))
                  | Target t \<Rightarrow>
                      (case Body resp1 of
                         None \<Rightarrow> Panics out
                       | Some bd \<Rightarrow>
                         (case json_Decode L bd t of
                            (t', b, Some e) \<Rightarrow>
                              return_deferred (resp1\<lparr>Body := Some b\<rparr>) None
                                (Some (External e)) (Target t') out
                          | (t', b, None) \<Rightarrow>
                              return_deferred (resp1\<lparr>Body := Some b\<rparr>) (Some wrapper)
                                None (Target t') out))))))"

subsection \<open>The content of a query string\<close>

text \<open>
  The parameters that the package reads from the query of a URL string, as a map from
  keys to value lists; \<open>None\<close> if the string does not parse.
\<close>

definition query_content :: "'v lib \<Rightarrow> string \<Rightarrow> (string \<rightharpoonup> string list) option" where
  "query_content L s =
     (case url_Parse L s of Inl e \<Rightarrow> None | Inr u \<Rightarrow> Some (map_of (url_Query L u)))"

text \<open>
  The package reads back what it wrote: the URL \<open>u\<close> with the encoding of \<open>m\<close> as its
  query, rendered as a string, parses to a URL whose parameters are those of \<open>m\<close>.
\<close>

definition reads_back :: "'v lib \<Rightarrow> URL \<Rightarrow> Values \<Rightarrow> bool" where
  "reads_back L u m =
     (query_content L (url_String L (u\<lparr>RawQuery := values_Encode L m\<rparr>)) = Some (map_of m))"

subsection \<open>List options\<close>

text \<open>
  \<^verbatim>\<open>ListOptions\<close> with its tags \<^verbatim>\<open>url:"page,omitempty"\<close> and
  \<^verbatim>\<open>url:"per_page,omitempty"\<close>: a field that is zero is left out of the query.
\<close>

record ListOptions =
  Page :: int
  PerPage :: int

definition ListOptions_Values :: "ListOptions \<Rightarrow> Values" where
  "ListOptions_Values opt =
     (if Page opt = 0 then [] else [(''page'', [itoa (Page opt)])]) @
     (if PerPage opt = 0 then [] else [(''per_page'', [itoa (PerPage opt)])])"

subsection \<open>The packages on the inputs of the examples\<close>

text \<open>
  The examples below run the functions of the file on concrete inputs. They use
  \<open>example_lib\<close>, which tabulates what the Go packages answer on the handful of
  inputs the examples touch and answers with an error everywhere else.
\<close>

datatype go_value = Options ListOptions | Buffer bytes | Text string

definition example_Parse :: "string \<Rightarrow> ext_error + URL" where
  "example_Parse s =
     (if s = ''https://sandboxapic.cisco.com/api''
      then Inr \<lparr>Scheme = ''https'', Host = ''sandboxapic.cisco.com'', Path = ''/api'',
                RawQuery = [], Fragment = []\<rparr>
      else if s = ''host''
      then Inr \<lparr>Scheme = [], Host = [], Path = ''host'', RawQuery = [], Fragment = []\<rparr>
      else if s = ''host?limit=5&page=1''
      then Inr \<lparr>Scheme = [], Host = [], Path = ''host'', RawQuery = ''limit=5&page=1'',
                Fragment = []\<rparr>
      else if s = ''host?limit=5&page=2''
      then Inr \<lparr>Scheme = [], Host = [], Path = ''host'', RawQuery = ''limit=5&page=2'',
                Fragment = []\<rparr>
      else if s = ''host?b=1&a=2''
      then Inr \<lparr>Scheme = [], Host = [], Path = ''host'', RawQuery = ''b=1&a=2'', Fragment = []\<rparr>
      else if s = ''%zz''
      then Inl ''parse %zz: invalid URL escape''
      else Inl ''not tabulated'')"

definition example_String :: "URL \<Rightarrow> string" where
  "example_String u =
     (if Scheme u = [] then [] else Scheme u @ ''://'' @ Host u) @ Path u @
     (if RawQuery u = [] then [] else ''?'' @ RawQuery u) @
     (if Fragment u = [] then [] else ''#'' @ Fragment u)"

definition example_Query :: "URL \<Rightarrow> Values" where
  "example_Query u =
     (if RawQuery u = ''limit=5&page=1'' then [(''limit'', [''5'']), (''page'', [''1''])]
      else if RawQuery u = ''limit=5&page=2'' then [(''limit'', [''5'']), (''page'', [''2''])]
      else if RawQuery u = ''b=1&a=2'' then [(''b'', [''1'']), (''a'', [''2''])]
      else [])"

definition example_Encode :: "Values \<Rightarrow> string" where
  "example_Encode m =
     (if m = [(''limit'', [''5'']), (''page'', [''2''])] then ''limit=5&page=2''
      else if m = [(''limit'', [''5'']), (''page'', [''1''])] then ''limit=5&page=1''
      else if m = [(''page'', [''2''])] then ''page=2''
      else if m = [(''b'', [''1'']), (''a'', [''2''])] then ''a=2&b=1''
      else [])"

definition example_ResolveReference :: "URL option \<Rightarrow> URL \<Rightarrow> URL option" where
  "example_ResolveReference base rel =
     (case base of
        None \<Rightarrow> None
      | Some b \<Rightarrow>
          if Scheme rel \<noteq> [] then Some rel
          else if Path b = ''/api'' \<and> Path rel = ''host''
          then Some (rel\<lparr>Scheme := Scheme b, Host := Host b, Path := ''/host''\<rparr>)
          else Some (rel\<lparr>Scheme := Scheme b, Host := Host b\<rparr>))"

definition example_Values :: "go_value iface \<Rightarrow> ext_error + Values" where
  "example_Values opt =
     (case opt of
        NonNil (Options lo) \<Rightarrow> Inr (ListOptions_Values lo)
      | NonNil _ \<Rightarrow> Inl ''query: Values() expects struct input''
      | _ \<Rightarrow> Inr [])"

text \<open>
  The JSON decoder at the key \<^verbatim>\<open>HTTPResponse\<close> with an object as its value: it
  decodes into the response that the pointer refers to, and into a new one if the pointer
  is nil.
\<close>

definition example_into ::
  "(http_Response \<Rightarrow> http_Response) \<Rightarrow> http_Response \<Rightarrow> ErrorResponse \<Rightarrow>
     http_Response \<times> ErrorResponse" where
  "example_into f r e =
     (case HTTPResponse e of
        LiveResponse \<Rightarrow> (f r, e)
      | OtherResponse x \<Rightarrow> (r, e\<lparr>HTTPResponse := OtherResponse (f x)\<rparr>)
      | NilResponse \<Rightarrow>
          (r, e\<lparr>HTTPResponse :=
                 OtherResponse (f \<lparr>StatusCode = 0, Request = None, Body = None\<rparr>)\<rparr>))"

definition example_Unmarshal ::
  "bytes \<Rightarrow> http_Response \<Rightarrow> ErrorResponse \<Rightarrow> http_Response \<times> ErrorResponse \<times> ext_error option" where
  "example_Unmarshal data r e =
     (if data = ''{\"message\":\"not found\"}'' then (r, e\<lparr>Message := ''not found''\<rparr>, None)
      else if data = ''{}'' then (r, e, None)
      else if data = ''{\"HTTPResponse\":null}'' then (r, e\<lparr>HTTPResponse := NilResponse\<rparr>, None)
      else if data = ''{\"HTTPResponse\":{\"Body\":null}}''
      then (case example_into (\<lambda>x. x\<lparr>Body := None\<rparr>) r e of (r', e') \<Rightarrow> (r', e', None))
      else if data = ''{\"HTTPResponse\":{\"StatusCode\":200},\"message\":\"m\"}''
      then (case example_into (\<lambda>x. x\<lparr>StatusCode := 200\<rparr>) r e of
              (r', e') \<Rightarrow> (r', e'\<lparr>Message := ''m''\<rparr>, None))
      else if data = [] then (r, e, Some ''unexpected end of JSON input'')
      else (r, e, Some ''invalid character '<' looking for beginning of value''))"

definition example_Decode :: "body \<Rightarrow> go_value \<Rightarrow> go_value \<times> body \<times> ext_error option" where
  "example_Decode b t =
     (if unread b = ''\"up\"'' then (Text ''up'', b\<lparr>unread := []\<rparr>, None)
      else if unread b = [] then (t, b, Some ''EOF'')
      else (t, b\<lparr>unread := []\<rparr>, Some ''invalid character '<' looking for beginning of value''))"

definition example_Copy :: "go_value \<Rightarrow> body \<Rightarrow> go_value \<times> body \<times> ext_error option" where
  "example_Copy w b =
     (case w of
        Buffer bs \<Rightarrow> (Buffer (bs @ unread b), b\<lparr>unread := []\<rparr>, read_error b)
      | _ \<Rightarrow> (w, b, if unread b = [] then read_error b else Some ''short write''))"

definition example_NewRequest :: "string \<Rightarrow> string \<Rightarrow> bytes \<Rightarrow> ext_error + Request" where
  "example_NewRequest m u b =
     (if CHR '' '' \<in> set m then Inl ''net/http: invalid method''
      else if u = ''https://sandboxapic.cisco.com/host''
      then Inr \<lparr>Method = (if m = [] then ''GET'' else m),
                URL = Some \<lparr>Scheme = ''https'', Host = ''sandboxapic.cisco.com'',
                            Path = ''/host'', RawQuery = [], Fragment = []\<rparr>,
                Header = [], Payload = b\<rparr>
      else Inl ''not tabulated'')"

definition example_lib :: "go_value lib" where
  "example_lib =
     \<lparr>url_Parse = example_Parse,
      url_String = example_String,
      url_Query = example_Query,
      url_ResolveReference = example_ResolveReference,
      values_Encode = example_Encode,
      query_Values = example_Values,
      unicode_ToUpper = (\<lambda>s. s),
      json_Encode = (\<lambda>v. case v of Text s \<Rightarrow> Inr (''\"'' @ s @ ''\"'' @ [CHR 0x0A])
                               | _ \<Rightarrow> Inl ''json: unsupported type''),
      json_Unmarshal = example_Unmarshal,
      json_Decode = example_Decode,
      io_Copy = example_Copy,
      http_NewRequest = example_NewRequest,
      http_DefaultClient = (\<lambda>req. Inl ''dial tcp: connection refused'')\<rparr>"

text \<open>A request for \<^verbatim>\<open>/host\<close> and a transport that answers it with a given response.\<close>

definition example_request :: Request where
  "example_request =
     \<lparr>Method = ''GET'',
      URL = Some \<lparr>Scheme = ''https'', Host = ''sandboxapic.cisco.com'', Path = ''/host'',
                  RawQuery = [], Fragment = []\<rparr>,
      Header = [], Payload = []\<rparr>"

definition example_response :: "int \<Rightarrow> bytes \<Rightarrow> http_Response" where
  "example_response code payload =
     \<lparr>StatusCode = code, Request = Some example_request,
      Body = Some \<lparr>unread = payload, read_error = None, closed = False\<rparr>\<rparr>"

definition example_client :: "int \<Rightarrow> bytes \<Rightarrow> Client" where
  "example_client code payload =
     NewClient example_lib (Some (\<lambda>req. Inr (example_response code payload)))"


section \<open>Properties\<close>

subsection \<open>Facts about the examples\<close>

lemma example_dispatch:
  "client (example_client code payload) example_request = Inr (example_response code payload)"
  "notify (example_client code payload) example_request resp = resp"
  by (simp_all add: example_client_def NewClient_def notify_def)

lemma example_unparsable:
  "json_Unmarshal example_lib ''<html>'' r e =
     (r, e, Some ''invalid character '<' looking for beginning of value'')"
  by (simp add: example_lib_def example_Unmarshal_def)

lemma example_null_response:
  "json_Unmarshal example_lib ''{\"HTTPResponse\":null}'' r e =
     (r, e\<lparr>HTTPResponse := NilResponse\<rparr>, None)"
  by (simp add: example_lib_def example_Unmarshal_def)

lemma example_null_body:
  "HTTPResponse e = LiveResponse \<Longrightarrow>
   json_Unmarshal example_lib ''{\"HTTPResponse\":{\"Body\":null}}'' r e =
     (r\<lparr>Body := None\<rparr>, e, None)"
  by (simp add: example_lib_def example_Unmarshal_def example_into_def)

lemma example_status_200:
  "HTTPResponse e = LiveResponse \<Longrightarrow>
   json_Unmarshal example_lib ''{\"HTTPResponse\":{\"StatusCode\":200},\"message\":\"m\"}'' r e =
     (r\<lparr>StatusCode := 200\<rparr>, e\<lparr>Message := ''m''\<rparr>, None)"
  by (simp add: example_lib_def example_Unmarshal_def example_into_def)

lemma example_not_found:
  "json_Unmarshal example_lib ''{\"message\":\"not found\"}'' r e =
     (r, e\<lparr>Message := ''not found''\<rparr>, None)"
  by (simp add: example_lib_def example_Unmarshal_def)

lemma example_Error:
  "Error example_lib (example_response code payload\<lparr>Body := b\<rparr>)
     \<lparr>HTTPResponse = LiveResponse, Message = msg, Errors = es, TrackingID = t\<rparr> =
   Returns (''GET https://sandboxapic.cisco.com/host: '' @ itoa code @ '' '' @ msg)"
  by (simp add: Error_def deref_def example_response_def example_request_def example_lib_def
      example_String_def)

lemma example_page2:
  "url_Parse example_lib ''host?limit=5&page=1'' =
     Inr \<lparr>Scheme = [], Host = [], Path = ''host'', RawQuery = ''limit=5&page=1'', Fragment = []\<rparr>"
  "query_Values example_lib (NonNil (Options \<lparr>Page = 2, PerPage = 0\<rparr>)) = Inr [(''page'', [''2''])]"
  by (simp_all add: example_lib_def example_Parse_def example_Values_def ListOptions_Values_def
      itoa_def digits.simps)

lemma example_once:
  "addOptions example_lib ''host?limit=5&page=1'' (NonNil (Options \<lparr>Page = 2, PerPage = 0\<rparr>)) =
     (''host?limit=5&page=2'', None)"
  by (simp add: addOptions_def example_page2)
     (simp add: example_lib_def example_Query_def example_Encode_def example_String_def)

lemma example_parse2:
  "url_Parse example_lib ''host?limit=5&page=2'' =
     Inr \<lparr>Scheme = [], Host = [], Path = ''host'', RawQuery = ''limit=5&page=2'', Fragment = []\<rparr>"
  by (simp add: example_lib_def example_Parse_def)

lemma example_reads_back:
  "reads_back example_lib
     \<lparr>Scheme = [], Host = [], Path = ''host'', RawQuery = q, Fragment = []\<rparr>
     [(''limit'', [''5'']), (''page'', [''2''])]"
  by (simp add: reads_back_def query_content_def example_lib_def example_Encode_def
      example_String_def example_Parse_def example_Query_def)




lemmas example_eval =
  example_response_def example_request_def example_lib_def example_Unmarshal_def
  example_into_def example_String_def Error_def deref_def printed_def itoa_def digits.simps

subsection \<open>The error classifier\<close>

lemma CheckResponse_2xx:
  "200 \<le> StatusCode r \<Longrightarrow> StatusCode r \<le> 299 \<Longrightarrow> CheckResponse L r = Returns (None, r, [])"
  by (simp add: CheckResponse_def)

text \<open>Outside 200..299 the classifier panics or returns an error, never nil.\<close>

lemma CheckResponse_not_2xx:
  assumes "\<not> (200 \<le> StatusCode r \<and> StatusCode r \<le> 299)"
  shows "(\<exists>out. CheckResponse L r = Panics out) \<or>
         (\<exists>e r' out. CheckResponse L r = Returns (Some e, r', out))"
proof (cases "Body r")
  case None
  with assms show ?thesis by (simp add: CheckResponse_def Let_def)
next
  case (Some bd)
  obtain data x b where ra: "ioutil_ReadAll bd = (data, x, b)"
    by (cases "ioutil_ReadAll bd") auto
  show ?thesis
    using assms Some ra
    by (auto simp add: CheckResponse_def Let_def split: prod.splits option.splits)
qed

lemma CheckResponse_nil_body:
  assumes "\<not> (200 \<le> StatusCode r \<and> StatusCode r \<le> 299)" and "Body r = None"
  shows "\<exists>out. CheckResponse L r = Panics out"
  using assms by (simp add: CheckResponse_def Let_def)

lemma CheckResponse_body:
  assumes "\<not> (200 \<le> StatusCode r \<and> StatusCode r \<le> 299)" and "Body r = Some bd"
  shows "\<exists>e r' out. CheckResponse L r = Returns (Some e, r', out)"
proof -
  obtain data x b where ra: "ioutil_ReadAll bd = (data, x, b)"
    by (cases "ioutil_ReadAll bd") auto
  show ?thesis
    using assms ra
    by (auto simp add: CheckResponse_def Let_def split: prod.splits option.splits)
qed

lemma Error_ignores_decoders:
  "Error (L\<lparr>json_Decode := d, io_Copy := w\<rparr>) r e = Error L r e"
  by (simp add: Error_def split: option.splits)

lemma CheckResponse_ignores_decoders:
  "CheckResponse (L\<lparr>json_Decode := d, io_Copy := w\<rparr>) r = CheckResponse L r"
proof -
  have u: "json_Unmarshal (L\<lparr>json_Decode := d, io_Copy := w\<rparr>) = json_Unmarshal L"
    by simp
  show ?thesis
    unfolding CheckResponse_def Error_ignores_decoders u ..
qed

text \<open>
  A body that was read without error and is not empty: the classifier calls
  \<^verbatim>\<open>json.Unmarshal\<close> twice and returns what the second call returns, its error if it
  has one and the API error otherwise.
\<close>

lemma CheckResponse_parsed:
  assumes "\<not> (200 \<le> StatusCode r \<and> StatusCode r \<le> 299)"
    and "Body r = Some bd"
    and "\<not> closed bd" and "read_error bd = None" and "unread bd \<noteq> []"
    and "json_Unmarshal L (unread bd) (r\<lparr>Body := Some (bd\<lparr>unread := []\<rparr>)\<rparr>)
           \<lparr>HTTPResponse = LiveResponse, Message = [], Errors = [], TrackingID = []\<rparr> =
         (r2, e1, x1)"
    and "json_Unmarshal L (unread bd) r2 e1 = (r3, e2, x2)"
  shows "\<exists>out. CheckResponse L r =
           Returns (case x2 of Some e \<Rightarrow> Some (External e) | None \<Rightarrow> Some (API e2), r3, out)"
  using assms
  by (auto simp add: CheckResponse_def ioutil_ReadAll_def Let_def split: option.splits)

text \<open>A body that cannot be read: the classifier returns the API error with empty fields.\<close>

lemma CheckResponse_unreadable_body:
  assumes "\<not> (200 \<le> StatusCode r \<and> StatusCode r \<le> 299)"
    and "Body r = Some bd"
    and "closed bd \<or> read_error bd \<noteq> None"
  shows "\<exists>r' out. CheckResponse L r =
           Returns (Some (API \<lparr>HTTPResponse = LiveResponse, Message = [], Errors = [],
                                TrackingID = []\<rparr>), r', out)"
  using assms
  by (auto simp add: CheckResponse_def ioutil_ReadAll_def Let_def split: prod.splits)

text \<open>
  An empty body that was read without error: the classifier returns the API error as the
  first call of \<^verbatim>\<open>json.Unmarshal\<close> left it, whatever that call returned.
\<close>

lemma CheckResponse_empty_body:
  assumes "\<not> (200 \<le> StatusCode r \<and> StatusCode r \<le> 299)"
    and "Body r = Some bd"
    and "\<not> closed bd" and "read_error bd = None" and "unread bd = []"
    and "json_Unmarshal L [] (r\<lparr>Body := Some (bd\<lparr>unread := []\<rparr>)\<rparr>)
           \<lparr>HTTPResponse = LiveResponse, Message = [], Errors = [], TrackingID = []\<rparr> =
         (r2, e1, x1)"
  shows "\<exists>out. CheckResponse L r = Returns (Some (API e1), r2, out)"
  using assms
  by (auto simp add: CheckResponse_def ioutil_ReadAll_def Let_def split: prod.splits)

subsection \<open>The dispatcher\<close>

lemma return_deferred_cases:
  "(return_deferred r res e v out = Panics out \<and> Body r = None) \<or>
   (\<exists>oc. return_deferred r res e v out = Returns oc \<and> response oc = res \<and> err oc = e \<and>
         dest oc = v \<and> stdout oc = out \<and> Body r \<noteq> None)"
  by (cases "Body r") (simp_all add: return_deferred_def deferred_def)

text \<open>
  A status outside 200..299: \<^verbatim>\<open>Do\<close> is the classifier followed by the deferred
  functions; neither \<^verbatim>\<open>io.Copy\<close> nor the JSON decoder is called.
\<close>

lemma Do_not_2xx:
  assumes "client c req = Inr resp0"
    and "\<not> (200 \<le> StatusCode (notify c req resp0) \<and> StatusCode (notify c req resp0) \<le> 299)"
  shows "Do L c req v =
           (case CheckResponse L (notify c req resp0) of
              Panics out \<Rightarrow> Panics out
            | Returns (cerr, r1, out) \<Rightarrow>
                return_deferred r1 (Some (newResponse LiveResponse)) cerr v out)"
proof -
  from CheckResponse_not_2xx [OF assms(2), of L]
  show ?thesis
  proof
    assume "\<exists>out. CheckResponse L (notify c req resp0) = Panics out"
    then show ?thesis using assms(1) by (auto simp: Do_def)
  next
    assume "\<exists>e r' out. CheckResponse L (notify c req resp0) = Returns (Some e, r', out)"
    then show ?thesis using assms(1) by (auto simp: Do_def)
  qed
qed

text \<open>
  Where \<^verbatim>\<open>Do\<close> returns on such a status, it returns the wrapper and an error, and the
  destination is the one the caller passed.
\<close>

lemma Do_not_2xx_returns:
  assumes "client c req = Inr resp0"
    and "\<not> (200 \<le> StatusCode (notify c req resp0) \<and> StatusCode (notify c req resp0) \<le> 299)"
    and "Do L c req v = Returns oc"
  shows "err oc \<noteq> None \<and> dest oc = v \<and> response oc = Some (newResponse LiveResponse)"
proof -
  from CheckResponse_not_2xx [OF assms(2), of L] assms(3) Do_not_2xx [OF assms(1,2), of L v]
  obtain e r1 out where ck: "CheckResponse L (notify c req resp0) = Returns (Some e, r1, out)"
    by auto
  with assms(3) Do_not_2xx [OF assms(1,2), of L v]
  have "return_deferred r1 (Some (newResponse LiveResponse)) (Some e) v out = Returns oc"
    by simp
  with return_deferred_cases [of r1 "Some (newResponse LiveResponse)" "Some e" v out]
  show ?thesis by auto
qed

lemma Do_not_2xx_ignores_decoders:
  assumes "client c req = Inr resp0"
    and "\<not> (200 \<le> StatusCode (notify c req resp0) \<and> StatusCode (notify c req resp0) \<le> 299)"
  shows "Do (L\<lparr>json_Decode := d, io_Copy := w\<rparr>) c req v = Do L c req v"
  unfolding Do_not_2xx [OF assms] CheckResponse_ignores_decoders ..

text \<open>
  On such a status \<^verbatim>\<open>Do\<close> panics exactly when the classifier panics or leaves the
  shared response without a body.
\<close>

lemma Do_not_2xx_panics:
  assumes "client c req = Inr resp0"
    and "\<not> (200 \<le> StatusCode (notify c req resp0) \<and> StatusCode (notify c req resp0) \<le> 299)"
    and "CheckResponse L (notify c req resp0) = Returns (cerr, r1, out)"
  shows "(Do L c req v = Panics out) = (Body r1 = None)"
  using return_deferred_cases [of r1 "Some (newResponse LiveResponse)" cerr v out]
  unfolding Do_not_2xx [OF assms(1,2)] assms(3) by auto

text \<open>
  C1. The claim: for a status outside 200..299 the classifier returns the API error that
  refers to the response, also when the body is empty or is not JSON, and a failed parse
  never puts another error in its place. The comment above \<^verbatim>\<open>CheckResponse\<close> says the
  same (a body that is not an error document is silently ignored). The code does so for
  an empty or unreadable body, but for a body that is not empty and does not parse it
  returns the error of \<^verbatim>\<open>json.Unmarshal\<close>. Here: status 500 with the body
  \<^verbatim>\<open><html>\<close>; the classifier, and with it \<^verbatim>\<open>Do\<close>, returns the syntax error of
  the JSON package, not an API error.
\<close>

theorem CheckResponse_unparsable_body:
  "CheckResponse example_lib (example_response 500 ''<html>'') =
     Returns (Some (External ''invalid character '<' looking for beginning of value''),
              (example_response 500 ''<html>'')
                \<lparr>Body := Some \<lparr>unread = [], read_error = None, closed = False\<rparr>\<rparr>,
              [Println [''ERROR'', ''GET https://sandboxapic.cisco.com/host: 500 '']]) \<and>
   (case Do example_lib (example_client 500 ''<html>'') example_request NoDest of
      Returns oc \<Rightarrow> err oc
    | Panics out \<Rightarrow> None) =
     Some (External ''invalid character '<' looking for beginning of value'')"
proof -
  let ?r = "example_response 500 ''<html>''"
  let ?r' = "?r\<lparr>Body := Some \<lparr>unread = [], read_error = None, closed = False\<rparr>\<rparr>"
  let ?out = "[Println [''ERROR'', ''GET https://sandboxapic.cisco.com/host: 500 '']]"
  have a: "CheckResponse example_lib ?r =
     Returns (Some (External ''invalid character '<' looking for beginning of value''), ?r', ?out)"
    by (simp add: CheckResponse_def ioutil_ReadAll_def Let_def example_eval)
  have s: "\<not> (200 \<le> StatusCode (notify (example_client 500 ''<html>'') example_request ?r) \<and>
       StatusCode (notify (example_client 500 ''<html>'') example_request ?r) \<le> 299)"
    by (simp add: example_dispatch example_response_def)
  have t: "client (example_client 500 ''<html>'') example_request = Inr ?r"
    by (rule example_dispatch)
  have "(case Do example_lib (example_client 500 ''<html>'') example_request NoDest of
      Returns oc \<Rightarrow> err oc
    | Panics out \<Rightarrow> None) =
     Some (External ''invalid character '<' looking for beginning of value'')"
    unfolding Do_not_2xx [OF t s] example_dispatch a
    by (simp add: return_deferred_def deferred_def example_response_def)
  with a show ?thesis by simp
qed

text \<open>
  The classifier returns no error exactly when the status lies in 200..299.
\<close>

lemma CheckResponse_nil_iff_2xx:
  "(\<exists>r' out. CheckResponse L r = Returns (None, r', out)) \<longleftrightarrow>
   200 \<le> StatusCode r \<and> StatusCode r \<le> 299"
proof (cases "200 \<le> StatusCode r \<and> StatusCode r \<le> 299")
  case True
  then show ?thesis by (simp add: CheckResponse_2xx)
next
  case False
  then show ?thesis using CheckResponse_not_2xx [OF False, of L] by auto
qed

text \<open>
  C2. The claim: the classifier returns no error exactly for a status in 200..299, and
  for every dispatch with a status outside that range \<^verbatim>\<open>Do\<close> returns an error and does
  not decode into the destination. The first half holds (\<open>CheckResponse_nil_iff_2xx\<close>),
  and where \<^verbatim>\<open>Do\<close> returns on such a status it returns an error, leaves the
  destination alone and calls neither \<^verbatim>\<open>io.Copy\<close> nor the decoder
  (\<open>Do_not_2xx_returns\<close>, \<open>Do_not_2xx_ignores_decoders\<close>). But \<^verbatim>\<open>Do\<close> does not
  return for every such dispatch. The field \<^verbatim>\<open>HTTPResponse\<close> of the error, documented
  as the response that caused the error, is the pointer to the response itself and is
  open to the JSON decoder: the body \<^verbatim>\<open>{"HTTPResponse":{"Body":null}}\<close> sets
  \<^verbatim>\<open>resp.Body\<close> to nil, and the deferred drain of \<^verbatim>\<open>Do\<close> panics on it. Here: status
  500 with that body.
\<close>

theorem Do_panics_on_nulled_body:
  "Do example_lib (example_client 500 ''{\"HTTPResponse\":{\"Body\":null}}'') example_request
      (Target (Text ''old'')) =
     Panics [Println [''ERROR'', ''GET https://sandboxapic.cisco.com/host: 500 '']]"
proof -
  let ?d = "''{\"HTTPResponse\":{\"Body\":null}}''"
  let ?r = "example_response 500 ?d"
  let ?out = "[Println [''ERROR'', ''GET https://sandboxapic.cisco.com/host: 500 '']]"
  let ?e = "\<lparr>HTTPResponse = LiveResponse, Message = [], Errors = [], TrackingID = []\<rparr>"
  have a: "CheckResponse example_lib ?r = Returns (Some (API ?e), ?r\<lparr>Body := None\<rparr>, ?out)"
    by (simp add: CheckResponse_def ioutil_ReadAll_def Let_def example_eval)
  have s: "\<not> (200 \<le> StatusCode (notify (example_client 500 ?d) example_request ?r) \<and>
       StatusCode (notify (example_client 500 ?d) example_request ?r) \<le> 299)"
    by (simp add: example_dispatch example_response_def)
  have t: "client (example_client 500 ?d) example_request = Inr ?r"
    by (rule example_dispatch)
  have b: "Body (?r\<lparr>Body := None\<rparr>) = None" by simp
  from Do_not_2xx_panics [OF t s, unfolded example_dispatch, OF a] b
  show ?thesis by simp
qed

subsection \<open>Rendering an API error\<close>

text \<open>
  Where \<^verbatim>\<open>Error\<close> returns, its text is the method of the request, a space, the URL of
  the request, a colon and a space, the status code in decimal, a space, and the message,
  all read through the pointer \<^verbatim>\<open>HTTPResponse\<close> at the time of the call.
\<close>

lemma Error_returns:
  assumes "Error L r e = Returns s"
  shows "\<exists>resp rq. deref r (HTTPResponse e) = Some resp \<and> Request resp = Some rq \<and>
           s = Method rq @ '' '' @
               (case URL rq of None \<Rightarrow> ''<nil>'' | Some u \<Rightarrow> url_String L u) @ '': '' @
               itoa (StatusCode resp) @ '' '' @ Message e"
  using assms by (auto simp: Error_def split: option.splits)

text \<open>
  An API error whose pointer still refers to the shared response renders the method, the
  URL and the status that the shared response has now.
\<close>

lemma Error_live:
  assumes "HTTPResponse e = LiveResponse" and "Request r = Some rq" and "URL rq = Some u"
  shows "Error L r e =
           Returns (Method rq @ '' '' @ url_String L u @ '': '' @ itoa (StatusCode r) @ '' '' @
                    Message e)"
  using assms by (simp add: Error_def deref_def)

text \<open>
  The scenario of the specification: status 404 with the body
  \<^verbatim>\<open>{"message":"not found"}\<close>.
\<close>

lemma Error_not_found:
  "(case CheckResponse example_lib (example_response 404 ''{\"message\":\"not found\"}'') of
      Returns (Some (API e), r, out) \<Rightarrow> Error example_lib r e
    | _ \<Rightarrow> Panics []) =
   Returns ''GET https://sandboxapic.cisco.com/host: 404 not found''"
proof -
  let ?r = "example_response 404 ''{\"message\":\"not found\"}''"
  have "\<exists>out. CheckResponse example_lib ?r =
      Returns (Some (API \<lparr>HTTPResponse = LiveResponse, Message = ''not found'', Errors = [],
                           TrackingID = []\<rparr>),
               ?r\<lparr>Body := Some \<lparr>unread = [], read_error = None, closed = False\<rparr>\<rparr>, out)"
    by (simp add: CheckResponse_def ioutil_ReadAll_def Let_def example_eval)
  then show ?thesis
    by (auto simp: example_Error itoa_def digits.simps)
qed

text \<open>
  C3. The claim: the text of every \<^verbatim>\<open>ErrorResponse\<close> built from a response outside
  200..299 holds the method and the URL of the request, the status code and the parsed
  message, in this order. \<^verbatim>\<open>Error\<close> has this format where it returns
  (\<open>Error_returns\<close>, \<open>Error_live\<close>, \<open>Error_not_found\<close>). But the field
  \<^verbatim>\<open>HTTPResponse\<close>, documented as the response that caused the error, is open to the
  JSON decoder. The body \<^verbatim>\<open>{"HTTPResponse":null}\<close> sets it to nil: the classifier
  returns an API error whose \<^verbatim>\<open>Error\<close> method panics on the nil pointer. The body
  \<^verbatim>\<open>{"HTTPResponse":{"StatusCode":200},"message":"m"}\<close> rewrites the response: the
  text of the error says 200 for a response that came with 500. Here: both bodies with
  status 500.
\<close>

theorem Error_panics_on_nulled_response:
  "(case CheckResponse example_lib (example_response 500 ''{\"HTTPResponse\":null}'') of
      Returns (Some (API e), r, out) \<Rightarrow> Error example_lib r e
    | _ \<Rightarrow> Returns ''no API error'') = Panics [] \<and>
   (case CheckResponse example_lib
           (example_response 500 ''{\"HTTPResponse\":{\"StatusCode\":200},\"message\":\"m\"}'') of
      Returns (Some (API e), r, out) \<Rightarrow> Error example_lib r e
    | _ \<Rightarrow> Returns ''no API error'') =
     Returns ''GET https://sandboxapic.cisco.com/host: 200 m''"
proof -
  let ?r = "example_response 500 ''{\"HTTPResponse\":null}''"
  have "\<exists>r' out. CheckResponse example_lib ?r =
      Returns (Some (API \<lparr>HTTPResponse = NilResponse, Message = [], Errors = [],
                           TrackingID = []\<rparr>), r', out)"
    by (simp add: CheckResponse_def ioutil_ReadAll_def Let_def example_eval)
  then have 1: "(case CheckResponse example_lib ?r of
      Returns (Some (API e), r, out) \<Rightarrow> Error example_lib r e
    | _ \<Rightarrow> Returns ''no API error'') = Panics []"
    by (auto simp: Error_def deref_def)
  let ?q = "example_response 500 ''{\"HTTPResponse\":{\"StatusCode\":200},\"message\":\"m\"}''"
  have "\<exists>out. CheckResponse example_lib ?q =
      Returns (Some (API \<lparr>HTTPResponse = LiveResponse, Message = ''m'', Errors = [],
                           TrackingID = []\<rparr>),
               (example_response 200 ''{\"HTTPResponse\":{\"StatusCode\":200},\"message\":\"m\"}'')
                 \<lparr>Body := Some \<lparr>unread = [], read_error = None, closed = False\<rparr>\<rparr>, out)"
    by (simp add: CheckResponse_def ioutil_ReadAll_def Let_def example_eval)
  then have 2: "(case CheckResponse example_lib ?q of
      Returns (Some (API e), r, out) \<Rightarrow> Error example_lib r e
    | _ \<Rightarrow> Returns ''no API error'') =
     Returns ''GET https://sandboxapic.cisco.com/host: 200 m''"
    by (auto simp: example_Error itoa_def digits.simps)
  from 1 2 show ?thesis by simp
qed

subsection \<open>The request builder\<close>







subsection \<open>Construction and options\<close>

lemma apply_opts_append:
  "apply_opts c (xs @ ys) =
     (case apply_opts c xs of Inl e \<Rightarrow> Inl e | Inr c' \<Rightarrow> apply_opts c' ys)"
  by (induction xs arbitrary: c) (auto split: prod.splits option.splits)

text \<open>
  C5. \<^verbatim>\<open>New\<close> applies the options from left to right to the client of \<^verbatim>\<open>NewClient\<close>:
  with no option it returns that client; an option that succeeds on the client built by
  the options before it extends the result by its effect; an option that fails there makes
  \<^verbatim>\<open>New\<close> return its error, whatever options follow it in the list.
\<close>

theorem New_applies_in_order:
  "New L h [] = Inr (NewClient L h) \<and>
   (New L h pre = Inr c \<longrightarrow> snd (opt c) = None \<longrightarrow>
      New L h (pre @ [opt]) = Inr (fst (opt c))) \<and>
   (New L h pre = Inr c \<longrightarrow> snd (opt c) = Some e \<longrightarrow>
      (\<forall>post. New L h (pre @ opt # post) = Inl e))"
  by (auto simp: New_def apply_opts_append split: prod.splits)

text \<open>
  A user agent, then a base URL that does not parse, then another user agent: the error
  of the base URL.
\<close>

theorem New_applies_in_order_witness:
  "New example_lib None [SetUserAgent ''a''] =
     Inr ((NewClient example_lib None)\<lparr>UserAgent := ''a+apicem/0.1.0''\<rparr>) \<and>
   snd (SetBaseURL example_lib ''%zz''
          ((NewClient example_lib None)\<lparr>UserAgent := ''a+apicem/0.1.0''\<rparr>)) =
     Some (External ''parse %zz: invalid URL escape'') \<and>
   New example_lib None ([SetUserAgent ''a''] @ SetBaseURL example_lib ''%zz'' # [SetUserAgent ''b'']) =
     Inl (External ''parse %zz: invalid URL escape'')"
proof -
  let ?c = "(NewClient example_lib None)\<lparr>UserAgent := ''a+apicem/0.1.0''\<rparr>"
  have a: "New example_lib None [SetUserAgent ''a''] = Inr ?c"
    by (simp add: New_def SetUserAgent_def NewClient_def userAgent_def libraryVersion_def)
  have b: "snd (SetBaseURL example_lib ''%zz'' ?c) =
      Some (External ''parse %zz: invalid URL escape'')"
    by (simp add: SetBaseURL_def example_lib_def example_Parse_def)
  from New_applies_in_order [of example_lib None "[SetUserAgent ''a'']" ?c
      "SetBaseURL example_lib ''%zz''" "External ''parse %zz: invalid URL escape''"] a b
  show ?thesis by blast
qed

text \<open>
  C9. \<^verbatim>\<open>SetUserAgent(ua)\<close> on the client of \<^verbatim>\<open>NewClient\<close> returns no error and
  sets the user agent to \<open>ua\<close>, a plus sign and the default \<^verbatim>\<open>apicem/0.1.0\<close>; so does
  \<^verbatim>\<open>New\<close> with this one option.
\<close>

theorem SetUserAgent_composes:
  "SetUserAgent ua (NewClient L h) =
     ((NewClient L h)\<lparr>UserAgent := ua @ ''+'' @ ''apicem/0.1.0''\<rparr>, None) \<and>
   New L h [SetUserAgent ua] =
     Inr ((NewClient L h)\<lparr>UserAgent := ua @ ''+'' @ ''apicem/0.1.0''\<rparr>)"
  by (simp add: New_def SetUserAgent_def NewClient_def userAgent_def libraryVersion_def)

theorem SetUserAgent_composes_witness:
  "UserAgent (fst (SetUserAgent ''custom/1.0'' (NewClient example_lib None))) =
     ''custom/1.0+apicem/0.1.0''"
  using SetUserAgent_composes [of "''custom/1.0''" example_lib None] by simp



subsection \<open>The results of a dispatch\<close>

text \<open>
  With a status in 200..299 and a body that is not nil, \<^verbatim>\<open>Do\<close> returns.
\<close>

lemma Do_2xx_returns:
  assumes "client c req = Inr resp0"
    and "200 \<le> StatusCode (notify c req resp0) \<and> StatusCode (notify c req resp0) \<le> 299"
    and "Body (notify c req resp0) = Some bd"
  shows "\<exists>oc. Do L c req v = Returns oc"
proof -
  have ck: "CheckResponse L (notify c req resp0) = Returns (None, notify c req resp0, [])"
    using assms(2) by (simp add: CheckResponse_2xx)
  show ?thesis
  proof (cases v)
    case NoDest
    with assms(1,3) ck show ?thesis
      by (simp add: Do_def return_deferred_def deferred_def)
  next
    case (Writer w)
    obtain w' b x where "io_Copy L w bd = (w', b, x)"
      by (cases "io_Copy L w bd") auto
    with assms(1,3) ck Writer show ?thesis
      by (cases x) (simp_all add: Do_def return_deferred_def deferred_def)
  next
    case (Target t)
    obtain t' b x where "json_Decode L bd t = (t', b, x)"
      by (cases "json_Decode L bd t") auto
    with assms(1,3) ck Target show ?thesis
      by (cases x) (simp_all add: Do_def return_deferred_def deferred_def)
  qed
qed

lemma return_deferred_not_nil_nil:
  assumes "return_deferred r res e v out = Returns oc" and "res \<noteq> None \<or> e \<noteq> None"
  shows "\<not> (response oc = None \<and> err oc = None)"
  using assms return_deferred_cases [of r res e v out] by auto

text \<open>
  C10. \<^verbatim>\<open>Do\<close> never returns a nil response together with a nil error. When the
  transport answers with a body, the status lies in 200..299 and copying the body into
  the writer, or decoding it into the target, fails, \<^verbatim>\<open>Do\<close> returns a nil response
  together with that error; and with such a status and a body \<^verbatim>\<open>Do\<close> always returns.
\<close>

theorem Do_never_nil_nil:
  "(\<forall>oc. Do L c req v = Returns oc \<longrightarrow> \<not> (response oc = None \<and> err oc = None)) \<and>
   (client c req = Inr resp0 \<longrightarrow>
    200 \<le> StatusCode (notify c req resp0) \<and> StatusCode (notify c req resp0) \<le> 299 \<longrightarrow>
    Body (notify c req resp0) = Some bd \<longrightarrow>
      (\<exists>oc. Do L c req v = Returns oc) \<and>
      (v = Writer w \<longrightarrow> io_Copy L w bd = (w', b, Some e) \<longrightarrow>
         (\<exists>oc. Do L c req v = Returns oc \<and> response oc = None \<and>
               err oc = Some (External e))) \<and>
      (v = Target t \<longrightarrow> json_Decode L bd t = (t', b, Some e) \<longrightarrow>
         (\<exists>oc. Do L c req v = Returns oc \<and> response oc = None \<and>
               err oc = Some (External e))))"
proof (intro conjI impI allI)
  fix oc
  assume ret: "Do L c req v = Returns oc"
  show "\<not> (response oc = None \<and> err oc = None)"
  proof (cases "client c req")
    case (Inl e)
    with ret show ?thesis by (auto simp: Do_def)
  next
    case (Inr resp0)
    show ?thesis
    proof (cases "CheckResponse L (notify c req resp0)")
      case (Panics out)
      with Inr ret show ?thesis by (simp add: Do_def)
    next
      case (Returns x)
      obtain ce r1 out where x: "x = (ce, r1, out)" by (cases x)
      show ?thesis
      proof (cases ce)
        case (Some y)
        with Inr Returns x ret
        have "return_deferred r1 (Some (newResponse LiveResponse)) (Some y) v out = Returns oc"
          by (simp add: Do_def)
        then show ?thesis by (rule return_deferred_not_nil_nil) simp
      next
        case None
        show ?thesis
        proof (cases v)
          case NoDest
          with Inr Returns x None ret
          have "return_deferred r1 (Some (newResponse LiveResponse)) None v out = Returns oc"
            by (simp add: Do_def)
          then show ?thesis by (rule return_deferred_not_nil_nil) simp
        next
          case (Writer w)
          show ?thesis
          proof (cases "Body r1")
            case None
            with Inr Returns x \<open>ce = None\<close> Writer ret show ?thesis by (simp add: Do_def)
          next
            case (Some bd)
            obtain w' b y where cp: "io_Copy L w bd = (w', b, y)"
              by (cases "io_Copy L w bd") auto
            show ?thesis
            proof (cases y)
              case None
              with Inr Returns x \<open>ce = None\<close> Writer Some cp ret
              have "return_deferred (r1\<lparr>Body := Some b\<rparr>) (Some (newResponse LiveResponse))
                      None (Writer w') out = Returns oc"
                by (simp add: Do_def)
              then show ?thesis by (rule return_deferred_not_nil_nil) simp
            next
              case (Some z)
              with Inr Returns x \<open>ce = None\<close> Writer \<open>Body r1 = Some bd\<close> cp ret
              have "return_deferred (r1\<lparr>Body := Some b\<rparr>) None (Some (External z))
                      (Writer w') out = Returns oc"
                by (simp add: Do_def)
              then show ?thesis by (rule return_deferred_not_nil_nil) simp
            qed
          qed
        next
          case (Target t)
          show ?thesis
          proof (cases "Body r1")
            case None
            with Inr Returns x \<open>ce = None\<close> Target ret show ?thesis by (simp add: Do_def)
          next
            case (Some bd)
            obtain t' b y where dc: "json_Decode L bd t = (t', b, y)"
              by (cases "json_Decode L bd t") auto
            show ?thesis
            proof (cases y)
              case None
              with Inr Returns x \<open>ce = None\<close> Target Some dc ret
              have "return_deferred (r1\<lparr>Body := Some b\<rparr>) (Some (newResponse LiveResponse))
                      None (Target t') out = Returns oc"
                by (simp add: Do_def)
              then show ?thesis by (rule return_deferred_not_nil_nil) simp
            next
              case (Some z)
              with Inr Returns x \<open>ce = None\<close> Target \<open>Body r1 = Some bd\<close> dc ret
              have "return_deferred (r1\<lparr>Body := Some b\<rparr>) None (Some (External z))
                      (Target t') out = Returns oc"
                by (simp add: Do_def)
              then show ?thesis by (rule return_deferred_not_nil_nil) simp
            qed
          qed
        qed
      qed
    qed
  qed
next
  assume t: "client c req = Inr resp0"
    and s: "200 \<le> StatusCode (notify c req resp0) \<and> StatusCode (notify c req resp0) \<le> 299"
    and bd: "Body (notify c req resp0) = Some bd"
  have ck: "CheckResponse L (notify c req resp0) = Returns (None, notify c req resp0, [])"
    using s by (simp add: CheckResponse_2xx)
  show "\<exists>oc. Do L c req v = Returns oc"
    using t s bd by (rule Do_2xx_returns)
  {
    assume "v = Writer w" and "io_Copy L w bd = (w', b, Some e)"
    then show "\<exists>oc. Do L c req v = Returns oc \<and> response oc = None \<and>
               err oc = Some (External e)"
      using t ck bd by (simp add: Do_def return_deferred_def deferred_def)
  }
  {
    assume "v = Target t" and "json_Decode L bd t = (t', b, Some e)"
    then show "\<exists>oc. Do L c req v = Returns oc \<and> response oc = None \<and>
               err oc = Some (External e)"
      using t ck bd by (simp add: Do_def return_deferred_def deferred_def)
  }
qed

text \<open>Status 200 with the body \<^verbatim>\<open><html>\<close> and a target of JSON decoding.\<close>

theorem Do_never_nil_nil_witness:
  "client (example_client 200 ''<html>'') example_request = Inr (example_response 200 ''<html>'') \<and>
   200 \<le> StatusCode (notify (example_client 200 ''<html>'') example_request
                      (example_response 200 ''<html>'')) \<and>
   StatusCode (notify (example_client 200 ''<html>'') example_request
                 (example_response 200 ''<html>'')) \<le> 299 \<and>
   Body (notify (example_client 200 ''<html>'') example_request (example_response 200 ''<html>'')) =
     Some \<lparr>unread = ''<html>'', read_error = None, closed = False\<rparr> \<and>
   json_Decode example_lib \<lparr>unread = ''<html>'', read_error = None, closed = False\<rparr>
      (Text ''old'') =
     (Text ''old'', \<lparr>unread = [], read_error = None, closed = False\<rparr>,
      Some ''invalid character '<' looking for beginning of value'') \<and>
   (case Do example_lib (example_client 200 ''<html>'') example_request (Target (Text ''old'')) of
      Returns oc \<Rightarrow> (response oc, err oc)
    | Panics out \<Rightarrow> (None, None)) =
     (None, Some (External ''invalid character '<' looking for beginning of value''))"
proof -
  have t: "client (example_client 200 ''<html>'') example_request =
      Inr (example_response 200 ''<html>'')"
    by (rule example_dispatch)
  have s: "200 \<le> StatusCode (notify (example_client 200 ''<html>'') example_request
                      (example_response 200 ''<html>'')) \<and>
   StatusCode (notify (example_client 200 ''<html>'') example_request
                 (example_response 200 ''<html>'')) \<le> 299"
    by (simp add: example_dispatch example_response_def)
  have bd: "Body (notify (example_client 200 ''<html>'') example_request
      (example_response 200 ''<html>'')) =
     Some \<lparr>unread = ''<html>'', read_error = None, closed = False\<rparr>"
    by (simp add: example_dispatch example_response_def)
  have d: "json_Decode example_lib \<lparr>unread = ''<html>'', read_error = None, closed = False\<rparr>
      (Text ''old'') =
     (Text ''old'', \<lparr>unread = [], read_error = None, closed = False\<rparr>,
      Some ''invalid character '<' looking for beginning of value'')"
    by (simp add: example_lib_def example_Decode_def)
  from Do_never_nil_nil [of example_lib "example_client 200 ''<html>''" example_request
      "Target (Text ''old'')" "example_response 200 ''<html>''"
      "\<lparr>unread = ''<html>'', read_error = None, closed = False\<rparr>" _ _ _ _ "Text ''old''",
      THEN conjunct2] t s bd d
  obtain oc where "Do example_lib (example_client 200 ''<html>'') example_request
      (Target (Text ''old'')) = Returns oc" and "response oc = None"
    and "err oc = Some (External ''invalid character '<' looking for beginning of value'')"
    by blast
  with t s bd d show ?thesis by simp
qed

subsection \<open>The query encoder\<close>

text \<open>
  C6. The claim: for every URL string, \<^verbatim>\<open>addOptions\<close> with an absent (nil) options
  value returns the string unchanged, with no error. The guard of \<^verbatim>\<open>addOptions\<close>
  holds of a nil pointer only. An options value that is the nil interface passes it: the
  string is parsed and its query is encoded again, so a string that does not parse comes
  back with the error of the parser, and the parameters of \<^verbatim>\<open>host?b=1&a=2\<close> come back
  in another order.
\<close>

theorem addOptions_untyped_nil_counterexample:
  "addOptions example_lib ''%zz'' NilInterface \<noteq> (''%zz'', None) \<and>
   addOptions example_lib ''%zz'' NilInterface =
     (''%zz'', Some (External ''parse %zz: invalid URL escape'')) \<and>
   addOptions example_lib ''host?b=1&a=2'' NilInterface = (''host?a=2&b=1'', None)"
  by (simp add: addOptions_def example_lib_def example_Parse_def example_Query_def
      example_Values_def example_Encode_def example_String_def)

text \<open>
  C6, as amended. For every URL string, \<^verbatim>\<open>addOptions\<close> with a nil pointer as its
  options value returns the string as it was given, with no error; the string is not even
  parsed.
\<close>

theorem addOptions_nil_pointer: "addOptions L s NilPtr = (s, None)"
  by (simp add: addOptions_def)

text \<open>A string that does not even parse as a URL comes back unchanged.\<close>

theorem addOptions_nil_pointer_witness:
  "addOptions example_lib ''%zz'' NilPtr = (''%zz'', None)"
  using addOptions_nil_pointer [of example_lib "''%zz''"] .

text \<open>
  The loop leaves a map that agrees with the option values on their keys and with the
  parameters of the URL elsewhere.
\<close>

lemma map_of_range_assign:
  "distinct (map fst new) \<Longrightarrow> map_of (range_assign new orig) = map_of orig ++ map_of new"
proof (induction new arbitrary: orig)
  case Nil
  then show ?case by simp
next
  case (Cons p new)
  obtain k v where p: "p = (k, v)" by (cases p)
  from Cons.prems p have k: "k \<notin> fst ` set new" and d: "distinct (map fst new)" by auto
  have "map_of (range_assign (p # new) orig) = (map_of orig)(k \<mapsto> v) ++ map_of new"
    unfolding p range_assign.simps Cons.IH [OF d] update_conv' ..
  also have "\<dots> = map_of orig ++ map_of (p # new)"
  proof (rule ext)
    fix x
    have nk: "map_of new k = None"
      using k by (simp add: map_of_eq_None_iff)
    show "((map_of orig)(k \<mapsto> v) ++ map_of new) x = (map_of orig ++ map_of (p # new)) x"
      using nk p by (cases "x = k") (simp_all add: map_add_def split: option.splits)
  qed
  finally show ?case .
qed

lemma addOptions_unfold:
  assumes "opt \<noteq> NilPtr" "url_Parse L s = Inr u" "query_Values L opt = Inr new"
  shows "addOptions L s opt =
     (url_String L (u\<lparr>RawQuery := values_Encode L (range_assign new (url_Query L u))\<rparr>), None)"
  using assms by (cases opt) (simp_all add: addOptions_def)

lemma addOptions_encode_error:
  assumes "opt \<noteq> NilPtr" "url_Parse L s = Inr u" "query_Values L opt = Inl e"
  shows "addOptions L s opt = (s, Some (External e))"
  using assms by (cases opt) (simp_all add: addOptions_def)

text \<open>
  C7. Take options that are not a nil pointer and a URL string that parses to \<open>u\<close>. If
  the options cannot be turned into parameters, \<^verbatim>\<open>addOptions\<close> returns the string as
  it was given, with that error. If they give the parameters \<open>new\<close> (a map: no key listed
  twice), \<^verbatim>\<open>addOptions\<close> returns, with no error, the URL \<open>u\<close> whose query is the
  encoding of a parameter map \<open>m\<close>: a key of the options has the values of the options
  in \<open>m\<close>, every other key has the values it had in the query of \<open>u\<close>.
\<close>

theorem addOptions_merges:
  assumes "opt \<noteq> NilPtr" and "url_Parse L s = Inr u"
  shows "(query_Values L opt = Inl e \<longrightarrow> addOptions L s opt = (s, Some (External e))) \<and>
         (query_Values L opt = Inr new \<longrightarrow> distinct (map fst new) \<longrightarrow>
            (\<exists>m. addOptions L s opt =
                    (url_String L (u\<lparr>RawQuery := values_Encode L m\<rparr>), None) \<and>
                 (\<forall>k. map_of m k =
                    (case map_of new k of None \<Rightarrow> map_of (url_Query L u) k
                     | Some v \<Rightarrow> Some v))))"
proof (intro conjI impI)
  assume "query_Values L opt = Inl e"
  with assms show "addOptions L s opt = (s, Some (External e))"
    by (rule addOptions_encode_error)
next
  assume q: "query_Values L opt = Inr new" and d: "distinct (map fst new)"
  show "\<exists>m. addOptions L s opt = (url_String L (u\<lparr>RawQuery := values_Encode L m\<rparr>), None) \<and>
             (\<forall>k. map_of m k =
                (case map_of new k of None \<Rightarrow> map_of (url_Query L u) k | Some v \<Rightarrow> Some v))"
  proof (intro exI conjI allI)
    show "addOptions L s opt =
       (url_String L (u\<lparr>RawQuery := values_Encode L (range_assign new (url_Query L u))\<rparr>), None)"
      using assms q by (rule addOptions_unfold)
    fix k
    show "map_of (range_assign new (url_Query L u)) k =
            (case map_of new k of None \<Rightarrow> map_of (url_Query L u) k | Some v \<Rightarrow> Some v)"
      by (simp add: map_of_range_assign [OF d] map_add_def)
  qed
qed

text \<open>
  The URL \<^verbatim>\<open>host?limit=5&page=1\<close> with the options \<^verbatim>\<open>{Page: 2}\<close>: \<^verbatim>\<open>limit\<close> is
  kept, \<^verbatim>\<open>page\<close> is replaced.
\<close>

theorem addOptions_merges_witness:
  "NonNil (Options \<lparr>Page = 2, PerPage = 0\<rparr>) \<noteq> NilPtr \<and>
   url_Parse example_lib ''host?limit=5&page=1'' =
     Inr \<lparr>Scheme = [], Host = [], Path = ''host'', RawQuery = ''limit=5&page=1'', Fragment = []\<rparr> \<and>
   query_Values example_lib (NonNil (Options \<lparr>Page = 2, PerPage = 0\<rparr>)) = Inr [(''page'', [''2''])] \<and>
   distinct (map fst [(''page'', [''2''])]) \<and>
   addOptions example_lib ''host?limit=5&page=1'' (NonNil (Options \<lparr>Page = 2, PerPage = 0\<rparr>)) =
     (''host?limit=5&page=2'', None)"
proof -
  have n: "NonNil (Options \<lparr>Page = 2, PerPage = 0\<rparr>) \<noteq> NilPtr" by simp
  have d: "distinct (map fst [(''page'', [''2''])])" by simp
  from addOptions_merges [OF n example_page2(1), of _ "[(''page'', [''2''])]"] example_page2(2) d
  obtain m where "addOptions example_lib ''host?limit=5&page=1''
        (NonNil (Options \<lparr>Page = 2, PerPage = 0\<rparr>)) =
      (url_String example_lib (\<lparr>Scheme = [], Host = [], Path = ''host'',
         RawQuery = ''limit=5&page=1'', Fragment = []\<rparr>\<lparr>RawQuery := values_Encode example_lib m\<rparr>),
       None)"
    by blast
  with n example_page2 d example_once show ?thesis by simp
qed

text \<open>
  C8. Take options that are not a nil pointer and a URL string that parses to \<open>u\<close>. If
  the options cannot be turned into parameters, the first call returns the string as it
  was given and the second call returns what the first returned. If they give the
  parameters \<open>new\<close> (a map: no key listed twice), assume that the package reads back what
  it wrote, at the two URLs that the calls render: the URL returned by the first call
  parses to \<open>u1\<close>, and its parameters, as well as the parameters of the URL returned by
  the second call, are the ones that were encoded into them. Then both calls return no
  error, the URL of the first call holds the parameters of the input URL overridden by the
  options, and the URL of the second call holds the same parameters as the URL of the
  first.
\<close>

theorem addOptions_idempotent:
  assumes nn: "opt \<noteq> NilPtr" and p: "url_Parse L s = Inr u"
  shows "(query_Values L opt = Inl e \<longrightarrow>
            addOptions L (fst (addOptions L s opt)) opt = addOptions L s opt) \<and>
         (query_Values L opt = Inr new \<longrightarrow> distinct (map fst new) \<longrightarrow>
          reads_back L u (range_assign new (url_Query L u)) \<longrightarrow>
          url_Parse L (fst (addOptions L s opt)) = Inr u1 \<longrightarrow>
          reads_back L u1 (range_assign new (url_Query L u1)) \<longrightarrow>
            snd (addOptions L s opt) = None \<and>
            snd (addOptions L (fst (addOptions L s opt)) opt) = None \<and>
            query_content L (fst (addOptions L s opt)) =
              Some (map_of (url_Query L u) ++ map_of new) \<and>
            query_content L (fst (addOptions L (fst (addOptions L s opt)) opt)) =
              query_content L (fst (addOptions L s opt)))"
proof (intro conjI impI)
  assume "query_Values L opt = Inl e"
  with nn p have "addOptions L s opt = (s, Some (External e))"
    by (rule addOptions_encode_error)
  then show "addOptions L (fst (addOptions L s opt)) opt = addOptions L s opt"
    by simp
next
  assume q: "query_Values L opt = Inr new" and d: "distinct (map fst new)"
    and rb1: "reads_back L u (range_assign new (url_Query L u))"
    and p1: "url_Parse L (fst (addOptions L s opt)) = Inr u1"
    and rb2: "reads_back L u1 (range_assign new (url_Query L u1))"
  let ?m1 = "range_assign new (url_Query L u)"
  let ?s1 = "url_String L (u\<lparr>RawQuery := values_Encode L ?m1\<rparr>)"
  have once: "addOptions L s opt = (?s1, None)"
    using nn p q by (rule addOptions_unfold)
  have c1: "query_content L ?s1 = Some (map_of (url_Query L u) ++ map_of new)"
    using rb1 by (simp add: reads_back_def map_of_range_assign [OF d])
  have p1': "url_Parse L ?s1 = Inr u1"
    using p1 once by simp
  have q1: "map_of (url_Query L u1) = map_of (url_Query L u) ++ map_of new"
    using c1 p1' by (simp add: query_content_def)
  let ?m2 = "range_assign new (url_Query L u1)"
  let ?s2 = "url_String L (u1\<lparr>RawQuery := values_Encode L ?m2\<rparr>)"
  have twice: "addOptions L ?s1 opt = (?s2, None)"
    using nn p1' q by (rule addOptions_unfold)
  have c2: "query_content L ?s2 = Some (map_of ?m2)"
    using rb2 by (simp add: reads_back_def)
  have m2: "map_of ?m2 = map_of (url_Query L u) ++ map_of new"
    by (rule ext) (simp add: map_of_range_assign [OF d] q1 map_add_def split: option.splits)
  show "snd (addOptions L s opt) = None"
    using once by simp
  show "snd (addOptions L (fst (addOptions L s opt)) opt) = None"
    using once twice by simp
  show "query_content L (fst (addOptions L s opt)) =
          Some (map_of (url_Query L u) ++ map_of new)"
    using once c1 by simp
  show "query_content L (fst (addOptions L (fst (addOptions L s opt)) opt)) =
          query_content L (fst (addOptions L s opt))"
    using once twice c1 c2 m2 by simp
qed

text \<open>
  The URL \<^verbatim>\<open>host?limit=5&page=1\<close> with the options \<^verbatim>\<open>{Page: 2}\<close>, twice: the
  second call returns the parameters of \<^verbatim>\<open>host?limit=5&page=2\<close> again.
\<close>

theorem addOptions_idempotent_witness:
  "query_content example_lib
     (fst (addOptions example_lib
        (fst (addOptions example_lib ''host?limit=5&page=1''
                (NonNil (Options \<lparr>Page = 2, PerPage = 0\<rparr>))))
        (NonNil (Options \<lparr>Page = 2, PerPage = 0\<rparr>)))) =
   query_content example_lib ''host?limit=5&page=2'' \<and>
   reads_back example_lib
     \<lparr>Scheme = [], Host = [], Path = ''host'', RawQuery = ''limit=5&page=1'', Fragment = []\<rparr>
     [(''limit'', [''5'']), (''page'', [''2''])] \<and>
   reads_back example_lib
     \<lparr>Scheme = [], Host = [], Path = ''host'', RawQuery = ''limit=5&page=2'', Fragment = []\<rparr>
     [(''limit'', [''5'']), (''page'', [''2''])] \<and>
   fst (addOptions example_lib ''host?limit=5&page=1'' (NonNil (Options \<lparr>Page = 2, PerPage = 0\<rparr>))) =
     ''host?limit=5&page=2''"
proof -
  let ?opt = "NonNil (Options \<lparr>Page = 2, PerPage = 0\<rparr>) :: go_value iface"
  let ?u = "\<lparr>Scheme = [], Host = [], Path = ''host'', RawQuery = ''limit=5&page=1'', Fragment = []\<rparr>"
  let ?u1 = "\<lparr>Scheme = [], Host = [], Path = ''host'', RawQuery = ''limit=5&page=2'', Fragment = []\<rparr>"
  have n: "?opt \<noteq> NilPtr" by simp
  have d: "distinct (map fst [(''page'', [''2''])])" by simp
  have m1: "range_assign [(''page'', [''2''])] (url_Query example_lib ?u) =
      [(''limit'', [''5'']), (''page'', [''2''])]"
    by (simp add: example_lib_def example_Query_def)
  have m2: "range_assign [(''page'', [''2''])] (url_Query example_lib ?u1) =
      [(''limit'', [''5'']), (''page'', [''2''])]"
    by (simp add: example_lib_def example_Query_def)
  have rb1: "reads_back example_lib ?u (range_assign [(''page'', [''2''])] (url_Query example_lib ?u))"
    unfolding m1 by (rule example_reads_back)
  have rb2: "reads_back example_lib ?u1 (range_assign [(''page'', [''2''])] (url_Query example_lib ?u1))"
    unfolding m2 by (rule example_reads_back)
  have p1: "url_Parse example_lib (fst (addOptions example_lib ''host?limit=5&page=1'' ?opt)) = Inr ?u1"
    by (simp add: example_once example_parse2)
  from addOptions_idempotent [OF n example_page2(1), of _ "[(''page'', [''2''])]" ?u1]
    example_page2(2) d rb1 p1 rb2
  have "query_content example_lib
     (fst (addOptions example_lib (fst (addOptions example_lib ''host?limit=5&page=1'' ?opt)) ?opt)) =
     query_content example_lib (fst (addOptions example_lib ''host?limit=5&page=1'' ?opt))"
    by blast
  with rb1 rb2 m1 m2 example_once show ?thesis by simp
qed

end
